theory Spec2Isabelle
  imports Complex_Main
begin

section \<open>Data model\<close>

text \<open>
  The dashboard's numbers (\<^verbatim>\<open>amount\<close>, \<^verbatim>\<open>daily_limit\<close>, the running totals) are
  modelled as exact rationals: the spec calls them decimal currency values. The rounding
  that IEEE-754 addition performs on a JavaScript \<^verbatim>\<open>number\<close> is not part of this model,
  and neither are \<^verbatim>\<open>NaN\<close> and the infinities in the dashboard (the interfaces type the
  fields as \<^verbatim>\<open>number\<close>, where \<^verbatim>\<open>Number(x)\<close> is the identity).

  A JavaScript string is the list of its code units, one \<open>char\<close> each, so that \<open>length\<close>
  is the \<^verbatim>\<open>length\<close> that the code and the schema measure and \<open>=\<close> is \<^verbatim>\<open>===\<close> on strings.
\<close>

text \<open>Decimal digits and the number that a string of digits writes.\<close>

definition is_digit :: "char \<Rightarrow> bool" where
  "is_digit c = (c \<in> set ''0123456789'')"

definition digit_value :: "char \<Rightarrow> nat" where
  "digit_value c = of_char c - 48"

definition number_of_digits :: "string \<Rightarrow> nat" where
  "number_of_digits ds = foldl (\<lambda>n c. 10 * n + digit_value c) 0 ds"

record profile =
  daily_limit :: rat
  full_name :: string

record expense =
  e_id :: string
  e_category :: string
  e_amount :: rat
  e_description :: string
  e_date :: string

section \<open>Dashboard: today's total, grand total, daily limit\<close>

text \<open>
  \<^verbatim>\<open>new Date().toISOString().split("T")[0]\<close>: the clock reading enters the model as the
  ISO string that \<^verbatim>\<open>toISOString\<close> returns (UTC, \<^verbatim>\<open>YYYY-MM-DDTHH:mm:ss.sssZ\<close>); the
  first piece of the split is everything before the first \<^verbatim>\<open>T\<close>.
\<close>

definition today_of :: "string \<Rightarrow> string" where
  "today_of now = takeWhile (\<lambda>c. c \<noteq> CHR ''T'') now"

text \<open>The two steps of \<^verbatim>\<open>calculateTodayTotal\<close> after it has read the clock:
  \<^verbatim>\<open>expenses.filter((exp) => exp.date === today)\<close> and
  \<^verbatim>\<open>todayExpenses.reduce((sum, exp) => sum + Number(exp.amount), 0)\<close>.\<close>

definition total_for_date :: "string \<Rightarrow> expense list \<Rightarrow> rat" where
  "total_for_date today expenses =
     (let todayExpenses = filter (\<lambda>exp. e_date exp = today) expenses
      in foldl (\<lambda>sum exp. sum + e_amount exp) 0 todayExpenses)"

text \<open>\<^verbatim>\<open>calculateTodayTotal\<close> reads the clock itself; the value it passes to
  \<^verbatim>\<open>setTodayTotal\<close> is the result.\<close>

definition calculateTodayTotal :: "string \<Rightarrow> expense list \<Rightarrow> rat" where
  "calculateTodayTotal now expenses = total_for_date (today_of now) expenses"

text \<open>The transaction count of the first card,
  \<^verbatim>\<open>expenses.filter((e) => e.date === new Date().toISOString().split("T")[0]).length\<close>,
  evaluated while rendering.\<close>

definition count_for_date :: "string \<Rightarrow> expense list \<Rightarrow> nat" where
  "count_for_date today expenses = length (filter (\<lambda>e. e_date e = today) expenses)"

definition today_transactions :: "string \<Rightarrow> expense list \<Rightarrow> nat" where
  "today_transactions now expenses = count_for_date (today_of now) expenses"

text \<open>The first card shows the state variable \<^verbatim>\<open>todayTotal\<close>, which the effect set when
  the expense list last changed (clock reading \<open>now_effect\<close>), next to the count, which the
  render computes (clock reading \<open>now_render\<close>).\<close>

definition today_card :: "string \<Rightarrow> string \<Rightarrow> expense list \<Rightarrow> rat \<times> nat" where
  "today_card now_effect now_render expenses =
     (calculateTodayTotal now_effect expenses, today_transactions now_render expenses)"

text \<open>The third card: \<^verbatim>\<open>expenses.reduce((sum, exp) => sum + Number(exp.amount), 0)\<close>.\<close>

definition grand_total :: "expense list \<Rightarrow> rat" where
  "grand_total expenses = foldl (\<lambda>sum exp. sum + e_amount exp) 0 expenses"

text \<open>
  \<^verbatim>\<open>const isOverLimit = profile && todayTotal > profile.daily_limit\<close>. With no profile the
  value is \<^verbatim>\<open>null\<close>; the model keeps its truthiness, which is all that
  \<^verbatim>\<open>{isOverLimit && (<Alert ...>)}\<close> looks at.
\<close>

definition isOverLimit :: "profile option \<Rightarrow> rat \<Rightarrow> bool" where
  "isOverLimit prof todayTotal =
     (case prof of None \<Rightarrow> False | Some p \<Rightarrow> todayTotal > daily_limit p)"

text \<open>The alert banner, when rendered, shows the limit and today's total (each then
  formatted by \<^verbatim>\<open>toFixed(2)\<close>); \<open>None\<close> is no banner.\<close>

definition alert_banner :: "profile option \<Rightarrow> rat \<Rightarrow> (rat \<times> rat) option" where
  "alert_banner prof todayTotal =
     (if isOverLimit prof todayTotal
      then (case prof of None \<Rightarrow> None | Some p \<Rightarrow> Some (daily_limit p, todayTotal))
      else None)"

text \<open>\<^verbatim>\<open>profile?.daily_limit || 0\<close>: \<^verbatim>\<open>undefined\<close> without a profile, and \<^verbatim>\<open>||\<close>
  replaces a falsy left operand (\<^verbatim>\<open>undefined\<close>, \<^verbatim>\<open>0\<close>) by \<^verbatim>\<open>0\<close>.\<close>

definition limit_or_zero :: "profile option \<Rightarrow> rat" where
  "limit_or_zero prof =
     (case prof of None \<Rightarrow> 0 | Some p \<Rightarrow> if daily_limit p = 0 then 0 else daily_limit p)"

text \<open>\<^verbatim>\<open>Math.max(0, (profile?.daily_limit || 0) - todayTotal)\<close>, the number that the
  second card formats as the remaining amount.\<close>

definition remaining :: "profile option \<Rightarrow> rat \<Rightarrow> rat" where
  "remaining prof todayTotal = max 0 (limit_or_zero prof - todayTotal)"

section \<open>ExpenseChart: totals by category\<close>

text \<open>
  \<^verbatim>\<open>categoryTotals\<close> is a plain object literal \<^verbatim>\<open>{}\<close> used as a dictionary, written
  and read with \<^verbatim>\<open>acc[category]\<close>. Such an object inherits from \<^verbatim>\<open>Object.prototype\<close>,
  so the model distinguishes the object's own properties (an association list in insertion
  order) from the inherited ones.

  A stored value is a number or, once \<^verbatim>\<open>+\<close> has met a non-number, a string; the text of
  such a string is never empty and is not modelled.
\<close>

datatype jsval = JNum rat | JStr

datatype lookup = Undefined | Own jsval | Inherited

type_synonym jsobject = "(string \<times> jsval) list"

text \<open>The property names of \<^verbatim>\<open>Object.prototype\<close>. All but \<^verbatim>\<open>__proto__\<close> are functions;
  \<^verbatim>\<open>__proto__\<close> is an accessor whose getter returns the prototype object. Every one of
  them reads as a truthy, non-numeric value.\<close>

definition object_prototype_keys :: "string list" where
  "object_prototype_keys =
     [''constructor'', ''__defineGetter__'', ''__defineSetter__'', ''hasOwnProperty'',
      ''__lookupGetter__'', ''__lookupSetter__'', ''isPrototypeOf'',
      ''propertyIsEnumerable'', ''toString'', ''valueOf'', ''__proto__'',
      ''toLocaleString'']"

text \<open>Reading \<^verbatim>\<open>acc[k]\<close>: an own property wins, then the prototype is consulted.\<close>

definition get_prop :: "jsobject \<Rightarrow> string \<Rightarrow> lookup" where
  "get_prop acc k =
     (case map_of acc k of
        Some v \<Rightarrow> Own v
      | None \<Rightarrow> if k \<in> set object_prototype_keys then Inherited else Undefined)"

text \<open>
  \<^verbatim>\<open>(acc[category] || 0) + Number(expense.amount)\<close>. \<^verbatim>\<open>undefined\<close> and the number \<^verbatim>\<open>0\<close>
  are falsy and give \<^verbatim>\<open>0 + n\<close>; a non-zero number is added to; a string, a function or
  an object is truthy, and \<^verbatim>\<open>+\<close> then concatenates strings.
\<close>

definition or_zero_plus :: "lookup \<Rightarrow> rat \<Rightarrow> jsval" where
  "or_zero_plus l n =
     (case l of
        Undefined \<Rightarrow> JNum (0 + n)
      | Own (JNum v) \<Rightarrow> if v = 0 then JNum (0 + n) else JNum (v + n)
      | Own JStr \<Rightarrow> JStr
      | Inherited \<Rightarrow> JStr)"

text \<open>Writing an own property keeps the position of an existing key and appends a new
  one.\<close>

fun own_update :: "jsobject \<Rightarrow> string \<Rightarrow> jsval \<Rightarrow> jsobject" where
  "own_update [] k v = [(k, v)]"
| "own_update ((k', v') # rest) k v =
     (if k' = k then (k, v) # rest else (k', v') # own_update rest k v)"

text \<open>
  The assignment \<^verbatim>\<open>acc[k] = v\<close>. For \<^verbatim>\<open>k = "__proto__"\<close> it runs the inherited setter,
  which does nothing when \<^verbatim>\<open>v\<close> is neither an object nor \<^verbatim>\<open>null\<close>; the values assigned
  here are numbers and strings. Every other key becomes (or stays) an own property.
\<close>

definition set_prop :: "jsobject \<Rightarrow> string \<Rightarrow> jsval \<Rightarrow> jsobject" where
  "set_prop acc k v = (if k = ''__proto__'' then acc else own_update acc k v)"

text \<open>The callback of the \<^verbatim>\<open>reduce\<close>, and the \<^verbatim>\<open>reduce\<close> itself, started from \<^verbatim>\<open>{}\<close>.\<close>

definition add_expense :: "jsobject \<Rightarrow> expense \<Rightarrow> jsobject" where
  "add_expense acc expense =
     (let category = e_category expense
      in set_prop acc category (or_zero_plus (get_prop acc category) (e_amount expense)))"

definition categoryTotals :: "expense list \<Rightarrow> jsobject" where
  "categoryTotals expenses = foldl add_expense [] expenses"

text \<open>The sum of the values of the mapping; \<open>None\<close> when a value is not a number.\<close>

fun values_total :: "jsobject \<Rightarrow> rat option" where
  "values_total [] = Some 0"
| "values_total ((k, JNum v) # rest) = map_option (\<lambda>s. v + s) (values_total rest)"
| "values_total ((k, JStr) # rest) = None"

text \<open>
  \<^verbatim>\<open>Object.entries\<close> lists the own properties whose key is an array index (the canonical
  decimal text of an integer below \<open>2\<^sup>3\<^sup>2 - 1\<close>) first, in ascending numeric order, and
  the other keys after them in insertion order.
\<close>

definition is_array_index :: "string \<Rightarrow> bool" where
  "is_array_index k =
     (k \<noteq> [] \<and> list_all is_digit k \<and> (k = ''0'' \<or> hd k \<noteq> CHR ''0'')
      \<and> number_of_digits k < 2 ^ 32 - 1)"

definition object_entries :: "jsobject \<Rightarrow> (string \<times> jsval) list" where
  "object_entries obj =
     sort_key (\<lambda>(k, v). number_of_digits k) (filter (\<lambda>(k, v). is_array_index k) obj)
     @ filter (\<lambda>(k, v). \<not> is_array_index k) obj"

text \<open>
  \<^verbatim>\<open>Number(value.toFixed(2))\<close> on a number. \<^verbatim>\<open>toFixed\<close> works on the exact value of its
  argument: a negative \<open>x\<close> is written with a minus sign and then treated as \<open>- x\<close>; from
  \<open>10\<^sup>2\<^sup>1\<close> on the result is the plain text of the number; otherwise it is the text of
  \<open>n / 100\<close> for the integer \<open>n\<close> that brings \<open>n / 100 - x\<close> closest to zero, the larger
  \<open>n\<close> when there are two. The model returns the number that this text writes, which is
  what \<^verbatim>\<open>Number\<close> reads back up to its own rounding to binary64.
\<close>

definition js_toFixed2 :: "rat \<Rightarrow> rat" where
  "js_toFixed2 x =
     (if 10 ^ 21 \<le> \<bar>x\<bar> then x
      else if x < 0 then - (of_int \<lfloor>(- x) * 100 + 1 / 2\<rfloor> / 100)
      else of_int \<lfloor>x * 100 + 1 / 2\<rfloor> / 100)"

text \<open>
  \<^verbatim>\<open>chartData\<close>: the \<^verbatim>\<open>map\<close> over the entries. A value that is a string has no
  \<^verbatim>\<open>toFixed\<close>, and calling it throws a \<^verbatim>\<open>TypeError\<close>.
\<close>

datatype js_error = TypeError

fun chart_entries :: "(string \<times> jsval) list \<Rightarrow> js_error + (string \<times> rat) list" where
  "chart_entries [] = Inr []"
| "chart_entries ((name, JNum value) # rest) =
     (case chart_entries rest of
        Inl e \<Rightarrow> Inl e
      | Inr entries \<Rightarrow> Inr ((name, js_toFixed2 value) # entries))"
| "chart_entries ((name, JStr) # rest) = Inl TypeError"

definition chartData :: "jsobject \<Rightarrow> js_error + (string \<times> rat) list" where
  "chartData totals = chart_entries (object_entries totals)"

section \<open>ExpenseForm: validation and the insert payload\<close>

text \<open>The four \<^verbatim>\<open>useState\<close> strings of the form.\<close>

record form_state =
  f_category :: string
  f_amount :: string
  f_description :: string
  f_date :: string

text \<open>What \<^verbatim>\<open>expenseSchema.parse\<close> returns on success.\<close>

record validated =
  v_category :: string
  v_amount :: rat
  v_description :: string
  v_date :: string

text \<open>The object passed to \<^verbatim>\<open>supabase.from("expenses").insert\<close>; \<open>None\<close> is
  \<^verbatim>\<open>null\<close>.\<close>

record insert_row =
  user_id :: string
  i_category :: string
  i_amount :: rat
  i_description :: "string option"
  i_date :: string

text \<open>
  The issues that \<^verbatim>\<open>expenseSchema\<close> raises, in the order of the keys of the schema, each
  with its message. The amount arrives as the result of \<^verbatim>\<open>parseFloat\<close>, \<open>None\<close> being
  \<^verbatim>\<open>NaN\<close>, which \<^verbatim>\<open>z.number()\<close> refuses with its own message before \<^verbatim>\<open>positive\<close> is
  looked at. The description is always a string here, so \<^verbatim>\<open>optional()\<close> never applies.
  The schema has no check on the date other than \<^verbatim>\<open>min(1)\<close>.
\<close>

definition expenseSchema_issues ::
  "string \<Rightarrow> rat option \<Rightarrow> string \<Rightarrow> string \<Rightarrow> string list" where
  "expenseSchema_issues category amount description date =
     (if length category < 1 then [''Category is required''] else [])
     @ (case amount of
          None \<Rightarrow> [''Expected number, received nan'']
        | Some a \<Rightarrow> if 0 < a then [] else [''Amount must be positive''])
     @ (if 500 < length description then [''Description too long''] else [])
     @ (if length date < 1 then [''Date is required''] else [])"

text \<open>\<^verbatim>\<open>expenseSchema.parse\<close>: the validated object, or a \<^verbatim>\<open>ZodError\<close> that carries the
  issues (\<open>Inl\<close>).\<close>

definition expenseSchema_parse ::
  "string \<Rightarrow> rat option \<Rightarrow> string \<Rightarrow> string \<Rightarrow> string list + validated" where
  "expenseSchema_parse category amount description date =
     (case (expenseSchema_issues category amount description date, amount) of
        ([], Some a) \<Rightarrow>
          Inr \<lparr>v_category = category, v_amount = a, v_description = description,
               v_date = date\<rparr>
      | (errors, _) \<Rightarrow> Inl errors)"

text \<open>How far \<^verbatim>\<open>handleSubmit\<close> gets: the validation toast with the first message, the
  toast for a missing session, or the call of \<^verbatim>\<open>insert\<close> with its argument.\<close>

datatype outcome = Validation_error string | Not_logged_in | Insert insert_row

text \<open>\<^verbatim>\<open>validated.description || null\<close>: the empty string is falsy.\<close>

definition description_or_null :: "string \<Rightarrow> string option" where
  "description_or_null d = (if d = [] then None else Some d)"

text \<open>
  \<^verbatim>\<open>handleSubmit\<close>. \<^verbatim>\<open>parseFloat\<close> is a parameter (a string to a number, \<open>None\<close> for
  \<^verbatim>\<open>NaN\<close>), and so is the user that \<^verbatim>\<open>supabase.auth.getUser()\<close> returns (its id, or
  \<open>None\<close>). The amount string comes from a number input, whose value is empty or the text
  of a finite number, so \<^verbatim>\<open>parseFloat\<close> yields no infinity here. The toast shows
  \<^verbatim>\<open>error.errors[0].message\<close>; a \<^verbatim>\<open>ZodError\<close> always carries an issue (lemma
  \<open>expenseSchema_parse_Inl_issues\<close>).
\<close>

definition handleSubmit ::
  "(string \<Rightarrow> rat option) \<Rightarrow> string option \<Rightarrow> form_state \<Rightarrow> outcome" where
  "handleSubmit parseFloat user st =
     (case expenseSchema_parse (f_category st) (parseFloat (f_amount st))
             (f_description st) (f_date st) of
        Inl errors \<Rightarrow> Validation_error (hd errors)
      | Inr validated \<Rightarrow>
          (case user of
             None \<Rightarrow> Not_logged_in
           | Some uid \<Rightarrow>
               Insert \<lparr>user_id = uid, i_category = v_category validated,
                       i_amount = v_amount validated,
                       i_description = description_or_null (v_description validated),
                       i_date = v_date validated\<rparr>))"

text \<open>
  \<^verbatim>\<open>handleSubmit\<close> is the \<^verbatim>\<open>onSubmit\<close> handler of a \<^verbatim>\<open>form\<close> element without
  \<^verbatim>\<open>noValidate\<close>, so the browser checks the constraints of the form's inputs first and
  fires no submit event when one of them fails. The amount and the date are \<^verbatim>\<open>Input\<close>
  elements (taken to hand their attributes to a native \<^verbatim>\<open>input\<close>) with constraints of
  their own; the category \<^verbatim>\<open>Select\<close> and the description \<^verbatim>\<open>Textarea\<close>, whose
  \<^verbatim>\<open>maxLength\<close> limits typing, are left to \<^verbatim>\<open>expenseSchema\<close>.
\<close>









section \<open>Properties of the dashboard\<close>

lemma foldl_plus_acc:
  "foldl (\<lambda>sum exp. sum + f exp) a xs = a + sum_list (map f xs)"
  for a :: rat
  by (induction xs arbitrary: a) (simp_all add: add.assoc)

lemma grand_total_sum_list: "grand_total es = sum_list (map e_amount es)"
  by (simp add: grand_total_def foldl_plus_acc)

lemma total_for_date_sum_list:
  "total_for_date d es = sum_list (map e_amount (filter (\<lambda>e. e_date e = d) es))"
  by (simp add: total_for_date_def foldl_plus_acc)

text \<open>
  Claim C2. With a profile loaded, the exceeded signal is exactly the strict comparison
  of today's total with the daily limit; a total equal to the limit does not exceed it.
\<close>

theorem isOverLimit_strict:
  "isOverLimit (Some p) t = (daily_limit p < t) \<and> \<not> isOverLimit (Some p) (daily_limit p)"
  by (simp add: isOverLimit_def)

text \<open>
  Claim C4. With a profile loaded, the remaining amount is \<open>max 0 (L - t)\<close> for daily
  limit \<open>L\<close> and today's total \<open>t\<close>, and the remaining amount is never negative,
  whatever the profile.
\<close>

theorem remaining_floor_zero:
  "remaining (Some p) t = max 0 (daily_limit p - t) \<and> 0 \<le> remaining prof t"
  by (simp add: remaining_def limit_or_zero_def)

text \<open>
  Claim C5. Without a profile the exceeded signal is false and no alert banner is
  rendered, for every today's total, in particular for the one computed from any expense
  list at any clock reading.
\<close>

theorem isOverLimit_no_profile:
  "\<not> isOverLimit None t \<and> alert_banner None t = None
     \<and> \<not> isOverLimit None (calculateTodayTotal now es)"
  by (simp add: isOverLimit_def alert_banner_def)

text \<open>
  Claim C3, as the code has it. Without a profile the remaining amount is computed with a
  limit of zero, \<open>max 0 (0 - t)\<close>: the same number as for a loaded profile whose daily
  limit is 0. No separate "unknown" result exists for the remaining amount.
\<close>

theorem remaining_no_profile:
  "remaining None t = max 0 (0 - t)
   \<and> remaining None t = remaining (Some \<lparr>daily_limit = 0, full_name = n\<rparr>) t"
  by (simp add: remaining_def limit_or_zero_def)

text \<open>
  The statement that the remaining amount is not computed as \<open>max 0 (0 - todayTotal)\<close>
  without a profile fails: at a today's total of 5 (and of -3) the result is that very
  number, and it cannot be told apart from the result for a zero limit.
\<close>

theorem remaining_no_profile_is_zero_limit:
  "remaining None 5 = max 0 (0 - 5)
   \<and> remaining None 5 = remaining (Some \<lparr>daily_limit = 0, full_name = ''A''\<rparr>) 5
   \<and> remaining None (- 3) = 3"
  by (simp add: remaining_def limit_or_zero_def)

text \<open>
  Claim C7, as the code has it. The today's total is computed against the date read from
  the clock when \<^verbatim>\<open>calculateTodayTotal\<close> runs, the transaction count against the date
  read from the clock when the card is rendered. When the two readings fall on the same
  UTC date, both numbers of the card are those of that one date.
\<close>

theorem today_card_same_day:
  "today_of now_effect = today_of now_render \<Longrightarrow>
   today_card now_effect now_render es =
     (total_for_date (today_of now_effect) es, count_for_date (today_of now_effect) es)"
  by (simp add: today_card_def calculateTodayTotal_def today_transactions_def)

theorem today_card_same_day_witness:
  "today_of ''2024-01-02T09:00:00.000Z'' = today_of ''2024-01-02T09:00:00.250Z''
   \<and> today_card ''2024-01-02T09:00:00.000Z'' ''2024-01-02T09:00:00.250Z''
        [\<lparr>e_id = ''e1'', e_category = ''Food'', e_amount = 25 / 2, e_description = [],
          e_date = ''2024-01-01''\<rparr>,
         \<lparr>e_id = ''e2'', e_category = ''Food'', e_amount = 15 / 2, e_description = [],
          e_date = ''2024-01-02''\<rparr>] = (15 / 2, 1)"
proof -
  have h: "today_of ''2024-01-02T09:00:00.000Z'' = today_of ''2024-01-02T09:00:00.250Z''"
    by (simp add: today_of_def)
  show ?thesis
    using h today_card_same_day [OF h]
    by (simp add: today_of_def total_for_date_def count_for_date_def)
qed

text \<open>
  The statement that both numbers are computed against one today value, whatever the two
  clock readings, fails when midnight (UTC) lies between them: with one expense of 5 dated
  2024-01-01, a total computed one millisecond before midnight and a count rendered one
  millisecond after it, the card shows a total of 5 over 0 transactions, which is the pair
  of neither date.
\<close>

theorem today_card_across_midnight:
  "today_of ''2024-01-01T23:59:59.999Z'' = ''2024-01-01''
   \<and> today_of ''2024-01-02T00:00:00.001Z'' = ''2024-01-02''
   \<and> today_card ''2024-01-01T23:59:59.999Z'' ''2024-01-02T00:00:00.001Z''
        [\<lparr>e_id = ''e1'', e_category = ''Food'', e_amount = 5, e_description = [],
          e_date = ''2024-01-01''\<rparr>] = (5, 0)
   \<and> count_for_date ''2024-01-01''
        [\<lparr>e_id = ''e1'', e_category = ''Food'', e_amount = 5, e_description = [],
          e_date = ''2024-01-01''\<rparr>] = 1
   \<and> total_for_date ''2024-01-02''
        [\<lparr>e_id = ''e1'', e_category = ''Food'', e_amount = 5, e_description = [],
          e_date = ''2024-01-01''\<rparr>] = 0"
  by (simp add: today_card_def calculateTodayTotal_def today_transactions_def today_of_def
      total_for_date_def count_for_date_def)

lemma sum_list_filter_le:
  "\<forall>e \<in> set es. 0 \<le> f e \<Longrightarrow> sum_list (map f (filter P es)) \<le> sum_list (map f es)"
  for f :: "'a \<Rightarrow> rat"
  by (induction es) (auto intro: add_increasing)

text \<open>
  Claim C9. When no amount of the list is negative, the total of the records dated \<open>d\<close>
  is at most the grand total, for every date string \<open>d\<close>.
\<close>

theorem total_for_date_le_grand_total:
  "\<forall>e \<in> set es. 0 \<le> e_amount e \<Longrightarrow> total_for_date d es \<le> grand_total es"
  by (simp add: total_for_date_sum_list grand_total_sum_list sum_list_filter_le)

theorem total_for_date_le_grand_total_witness:
  "total_for_date ''2024-01-02''
     [\<lparr>e_id = ''e1'', e_category = ''Food'', e_amount = 25 / 2, e_description = [],
       e_date = ''2024-01-01''\<rparr>,
      \<lparr>e_id = ''e2'', e_category = ''Food'', e_amount = 15 / 2, e_description = [],
       e_date = ''2024-01-02''\<rparr>]
   \<le> grand_total
     [\<lparr>e_id = ''e1'', e_category = ''Food'', e_amount = 25 / 2, e_description = [],
       e_date = ''2024-01-01''\<rparr>,
      \<lparr>e_id = ''e2'', e_category = ''Food'', e_amount = 15 / 2, e_description = [],
       e_date = ''2024-01-02''\<rparr>]
   \<and> total_for_date ''2024-01-02''
     [\<lparr>e_id = ''e1'', e_category = ''Food'', e_amount = 25 / 2, e_description = [],
       e_date = ''2024-01-01''\<rparr>,
      \<lparr>e_id = ''e2'', e_category = ''Food'', e_amount = 15 / 2, e_description = [],
       e_date = ''2024-01-02''\<rparr>] = 15 / 2
   \<and> grand_total
     [\<lparr>e_id = ''e1'', e_category = ''Food'', e_amount = 25 / 2, e_description = [],
       e_date = ''2024-01-01''\<rparr>,
      \<lparr>e_id = ''e2'', e_category = ''Food'', e_amount = 15 / 2, e_description = [],
       e_date = ''2024-01-02''\<rparr>] = 20"
proof (intro conjI)
  show "total_for_date ''2024-01-02''
     [\<lparr>e_id = ''e1'', e_category = ''Food'', e_amount = 25 / 2, e_description = [],
       e_date = ''2024-01-01''\<rparr>,
      \<lparr>e_id = ''e2'', e_category = ''Food'', e_amount = 15 / 2, e_description = [],
       e_date = ''2024-01-02''\<rparr>]
   \<le> grand_total
     [\<lparr>e_id = ''e1'', e_category = ''Food'', e_amount = 25 / 2, e_description = [],
       e_date = ''2024-01-01''\<rparr>,
      \<lparr>e_id = ''e2'', e_category = ''Food'', e_amount = 15 / 2, e_description = [],
       e_date = ''2024-01-02''\<rparr>]"
    by (rule total_for_date_le_grand_total) simp
qed (simp_all add: total_for_date_def grand_total_def)

section \<open>Properties of the category totals\<close>

lemma values_total_own_update_fresh:
  "values_total acc = Some s \<Longrightarrow> map_of acc k = None \<Longrightarrow>
   values_total (own_update acc k (JNum n)) = Some (s + n)"
proof (induction acc arbitrary: s rule: values_total.induct)
  case 1
  then show ?case by simp
next
  case (2 k' v rest)
  then show ?case by (auto split: if_splits)
next
  case (3 k' rest)
  then show ?case by simp
qed

lemma values_total_own_update_old:
  "values_total acc = Some s \<Longrightarrow> map_of acc k = Some (JNum v) \<Longrightarrow>
   values_total (own_update acc k (JNum (v + n))) = Some (s + n)"
proof (induction acc arbitrary: s rule: values_total.induct)
  case 1
  then show ?case by simp
next
  case (2 k' v' rest)
  then show ?case by (auto split: if_splits)
next
  case (3 k' rest)
  then show ?case by simp
qed

lemma values_total_Some_JNum:
  "values_total acc = Some s \<Longrightarrow> map_of acc k = Some x \<Longrightarrow> \<exists>v. x = JNum v"
  by (induction acc arbitrary: s rule: values_total.induct) (auto split: if_splits)

lemma values_total_add_expense:
  assumes "values_total acc = Some s" and "e_category e \<notin> set object_prototype_keys"
  shows "values_total (add_expense acc e) = Some (s + e_amount e)"
proof -
  have np: "e_category e \<noteq> ''__proto__''"
    using assms(2) by (auto simp: object_prototype_keys_def)
  show ?thesis
  proof (cases "map_of acc (e_category e)")
    case None
    then show ?thesis
      using assms np
      by (simp add: add_expense_def get_prop_def or_zero_plus_def set_prop_def
          values_total_own_update_fresh)
  next
    case (Some x)
    then obtain v where x: "x = JNum v"
      using values_total_Some_JNum [OF assms(1)] by blast
    show ?thesis
      using Some x assms(1) np values_total_own_update_old [of acc s "e_category e" v "e_amount e"]
      by (auto simp: add_expense_def get_prop_def or_zero_plus_def set_prop_def)
  qed
qed

lemma values_total_foldl:
  "values_total acc = Some s \<Longrightarrow> \<forall>e \<in> set es. e_category e \<notin> set object_prototype_keys \<Longrightarrow>
   values_total (foldl add_expense acc es) = Some (s + sum_list (map e_amount es))"
proof (induction es arbitrary: acc s)
  case Nil
  then show ?case by simp
next
  case (Cons e es)
  have "values_total (add_expense acc e) = Some (s + e_amount e)"
    using Cons.prems by (simp add: values_total_add_expense)
  from Cons.IH [OF this] Cons.prems(2) show ?case
    by (simp add: add.assoc)
qed

lemma categoryTotals_conservation:
  "\<forall>e \<in> set es. e_category e \<notin> set object_prototype_keys \<Longrightarrow>
   values_total (categoryTotals es) = Some (grand_total es)"
  using values_total_foldl [of "[]" 0 es]
  by (simp add: categoryTotals_def grand_total_sum_list)

text \<open>
  Claim C1. The values of the total-by-category mapping should add up to the grand total
  for every expense list. For the single expense of 5 in the category \<^verbatim>\<open>__proto__\<close> the
  mapping stays empty, so its values add up to 0, while the grand total is 5. (Lemma
  \<open>categoryTotals_conservation\<close> is the invariant, in the exact arithmetic of this model,
  for the lists in which no category is a property name of \<^verbatim>\<open>Object.prototype\<close>.)
\<close>

theorem categoryTotals_drops_proto:
  "categoryTotals
     [\<lparr>e_id = ''e1'', e_category = ''__proto__'', e_amount = 5, e_description = [],
       e_date = ''2024-01-01''\<rparr>] = []
   \<and> values_total (categoryTotals
     [\<lparr>e_id = ''e1'', e_category = ''__proto__'', e_amount = 5, e_description = [],
       e_date = ''2024-01-01''\<rparr>]) = Some 0
   \<and> grand_total
     [\<lparr>e_id = ''e1'', e_category = ''__proto__'', e_amount = 5, e_description = [],
       e_date = ''2024-01-01''\<rparr>] = 5"
  by (simp add: categoryTotals_def add_expense_def set_prop_def get_prop_def
      or_zero_plus_def grand_total_def object_prototype_keys_def)

section \<open>Properties of the chart values\<close>

lemma js_toFixed2_nonneg:
  assumes "0 \<le> x" "x < 10 ^ 21"
  shows "js_toFixed2 x = of_int \<lfloor>x * 100 + 1 / 2\<rfloor> / 100"
  using assms by (simp add: js_toFixed2_def)

lemma js_toFixed2_neg:
  assumes "x < 0"
  shows "js_toFixed2 x = - js_toFixed2 (- x)"
  using assms by (simp add: js_toFixed2_def)

lemma round_half_up_props:
  fixes y :: rat
  defines "n \<equiv> \<lfloor>y + 1 / 2\<rfloor>"
  shows "\<bar>of_int n - y\<bar> \<le> 1 / 2" and "\<bar>of_int n - y\<bar> = 1 / 2 \<Longrightarrow> y < of_int n"
proof -
  have a: "of_int n \<le> y + 1 / 2" and b: "y + 1 / 2 < of_int n + 1"
    unfolding n_def by linarith+
  show "\<bar>of_int n - y\<bar> \<le> 1 / 2" using a b by linarith
  show "\<bar>of_int n - y\<bar> = 1 / 2 \<Longrightarrow> y < of_int n" using a b by linarith
qed

lemma js_toFixed2_nonneg_props:
  assumes "0 \<le> x" "x < 10 ^ 21"
  shows "\<exists>n::int. js_toFixed2 x = of_int n / 100"
    and "\<bar>js_toFixed2 x - x\<bar> \<le> 1 / 200"
    and "\<bar>js_toFixed2 x - x\<bar> = 1 / 200 \<Longrightarrow> x < js_toFixed2 x"
    and "0 \<le> js_toFixed2 x"
proof -
  let ?n = "\<lfloor>x * 100 + 1 / 2\<rfloor>"
  have eq: "js_toFixed2 x = of_int ?n / 100" by (rule js_toFixed2_nonneg [OF assms])
  show "\<exists>n::int. js_toFixed2 x = of_int n / 100" using eq by blast
  have d: "js_toFixed2 x - x = (of_int ?n - x * 100) / 100"
    by (simp add: eq field_simps)
  have p1: "\<bar>of_int ?n - x * 100\<bar> \<le> 1 / 2"
    and p2: "\<bar>of_int ?n - x * 100\<bar> = 1 / 2 \<Longrightarrow> x * 100 < of_int ?n"
    using round_half_up_props [of "x * 100"] by auto
  have abs_d: "\<bar>js_toFixed2 x - x\<bar> = \<bar>of_int ?n - x * 100\<bar> / 100"
    by (simp add: d)
  show "\<bar>js_toFixed2 x - x\<bar> \<le> 1 / 200" using p1 by (simp add: abs_d)
  show "\<bar>js_toFixed2 x - x\<bar> = 1 / 200 \<Longrightarrow> x < js_toFixed2 x"
  proof -
    assume "\<bar>js_toFixed2 x - x\<bar> = 1 / 200"
    then have "\<bar>of_int ?n - x * 100\<bar> = 1 / 2" by (simp add: abs_d)
    from p2 [OF this] show ?thesis by (simp add: eq)
  qed
  have "0 \<le> ?n" using assms(1) by simp
  then show "0 \<le> js_toFixed2 x" by (simp add: eq)
qed

lemma js_toFixed2_props:
  assumes "\<bar>x\<bar> < 10 ^ 21"
  shows "(\<exists>n::int. js_toFixed2 x = of_int n / 100)
         \<and> \<bar>js_toFixed2 x - x\<bar> \<le> 1 / 200
         \<and> (\<bar>js_toFixed2 x - x\<bar> = 1 / 200 \<longrightarrow> \<bar>x\<bar> < \<bar>js_toFixed2 x\<bar>)"
proof (cases "0 \<le> x")
  case True
  with assms have lt: "x < 10 ^ 21" by simp
  note p = js_toFixed2_nonneg_props [OF True lt]
  show ?thesis using p True by auto
next
  case False
  then have neg: "x < 0" by simp
  with assms have nn: "0 \<le> - x" and lt: "- x < 10 ^ 21" by simp_all
  note p = js_toFixed2_nonneg_props [OF nn lt]
  have eq: "js_toFixed2 x = - js_toFixed2 (- x)" by (rule js_toFixed2_neg [OF neg])
  have d: "\<bar>js_toFixed2 x - x\<bar> = \<bar>js_toFixed2 (- x) - (- x)\<bar>"
    unfolding eq by linarith
  have "\<exists>n::int. js_toFixed2 x = of_int n / 100"
  proof -
    from p(1) obtain n :: int where "js_toFixed2 (- x) = of_int n / 100" by blast
    then have "js_toFixed2 x = of_int (- n) / 100" by (simp add: eq)
    then show ?thesis by blast
  qed
  moreover have "\<bar>js_toFixed2 x - x\<bar> \<le> 1 / 200" using p(2) d by simp
  moreover have "\<bar>js_toFixed2 x - x\<bar> = 1 / 200 \<longrightarrow> \<bar>x\<bar> < \<bar>js_toFixed2 x\<bar>"
    using p(3) p(4) d neg eq by auto
  ultimately show ?thesis by blast
qed

lemma chart_entries_member:
  "chart_entries es = Inr entries \<Longrightarrow> (name, value) \<in> set entries \<Longrightarrow>
   \<exists>x. (name, JNum x) \<in> set es \<and> value = js_toFixed2 x"
proof (induction es arbitrary: entries rule: chart_entries.induct)
  case 1
  then show ?case by simp
next
  case (2 name' v rest)
  then show ?case by (fastforce split: sum.splits)
next
  case (3 name' rest)
  then show ?case by simp
qed

lemma set_object_entries: "set (object_entries obj) = set obj"
  by (auto simp: object_entries_def)

lemma categoryTotals_two_10_005:
  "categoryTotals
     [\<lparr>e_id = ''e1'', e_category = ''Food'', e_amount = 5632314283980227 / 2 ^ 49,
       e_description = [], e_date = ''2024-01-01''\<rparr>,
      \<lparr>e_id = ''e2'', e_category = ''Food'', e_amount = 5632314283980227 / 2 ^ 49,
       e_description = [], e_date = ''2024-01-02''\<rparr>]
   = [(''Food'', JNum (5632314283980227 / 2 ^ 48))]"
  by (simp add: categoryTotals_def add_expense_def set_prop_def get_prop_def
      or_zero_plus_def object_prototype_keys_def)

lemma is_array_index_Food: "\<not> is_array_index ''Food''"
  by (simp add: is_array_index_def is_digit_def)

text \<open>
  Claim C6, as the code has it. Every value of \<^verbatim>\<open>chartData\<close> is \<^verbatim>\<open>toFixed(2)\<close> of a number
  that the mapping holds for that name (the mapping's own values are not rounded). For a
  held number below \<open>10\<^sup>2\<^sup>1\<close> in magnitude the value is a whole number of hundredths, at
  most 0.005 away from the held number, and a held number exactly halfway between two
  hundredths goes to the one farther from zero. The rounding is that of the held binary
  number, not of the decimal amounts that were entered.
\<close>

theorem chartData_rounds_held_sum:
  assumes "chartData totals = Inr entries" and "(name, value) \<in> set entries"
  shows "\<exists>x. (name, JNum x) \<in> set totals \<and> value = js_toFixed2 x
           \<and> (\<bar>x\<bar> < 10 ^ 21 \<longrightarrow>
                (\<exists>n::int. value = of_int n / 100) \<and> \<bar>value - x\<bar> \<le> 1 / 200
                \<and> (\<bar>value - x\<bar> = 1 / 200 \<longrightarrow> \<bar>x\<bar> < \<bar>value\<bar>))"
proof -
  from assms obtain x where
    x: "(name, JNum x) \<in> set (object_entries totals)" "value = js_toFixed2 x"
    unfolding chartData_def by (blast dest: chart_entries_member)
  then have "(name, JNum x) \<in> set totals" by (simp add: set_object_entries)
  moreover have "\<bar>x\<bar> < 10 ^ 21 \<longrightarrow>
                (\<exists>n::int. value = of_int n / 100) \<and> \<bar>value - x\<bar> \<le> 1 / 200
                \<and> (\<bar>value - x\<bar> = 1 / 200 \<longrightarrow> \<bar>x\<bar> < \<bar>value\<bar>)"
    unfolding x(2) using js_toFixed2_props [of x] by blast
  ultimately show ?thesis using x(2) by blast
qed

text \<open>
  The amount 10.005 arrives as the binary64 number \<open>5632314283980227 / 2\<^sup>4\<^sup>9\<close>, a little
  above 10.005. Two of them in one category add up without rounding (a doubling), and
  the chart value is 20.01.
\<close>

theorem chartData_rounds_held_sum_witness:
  "chartData (categoryTotals
     [\<lparr>e_id = ''e1'', e_category = ''Food'', e_amount = 5632314283980227 / 2 ^ 49,
       e_description = [], e_date = ''2024-01-01''\<rparr>,
      \<lparr>e_id = ''e2'', e_category = ''Food'', e_amount = 5632314283980227 / 2 ^ 49,
       e_description = [], e_date = ''2024-01-02''\<rparr>])
   = Inr [(''Food'', 2001 / 100)]
   \<and> (\<exists>x. (''Food'', JNum x) \<in> set (categoryTotals
     [\<lparr>e_id = ''e1'', e_category = ''Food'', e_amount = 5632314283980227 / 2 ^ 49,
       e_description = [], e_date = ''2024-01-01''\<rparr>,
      \<lparr>e_id = ''e2'', e_category = ''Food'', e_amount = 5632314283980227 / 2 ^ 49,
       e_description = [], e_date = ''2024-01-02''\<rparr>])
        \<and> 2001 / 100 = js_toFixed2 x \<and> \<bar>2001 / 100 - x\<bar> \<le> 1 / 200)"
proof -
  let ?es = "[\<lparr>e_id = ''e1'', e_category = ''Food'', e_amount = 5632314283980227 / 2 ^ 49,
       e_description = [], e_date = ''2024-01-01''\<rparr>,
      \<lparr>e_id = ''e2'', e_category = ''Food'', e_amount = 5632314283980227 / 2 ^ 49,
       e_description = [], e_date = ''2024-01-02''\<rparr>]"
  have h: "chartData (categoryTotals ?es) = Inr [(''Food'', 2001 / 100)]"
    unfolding categoryTotals_two_10_005
    by (simp add: chartData_def object_entries_def is_array_index_Food js_toFixed2_def
        floor_eq_iff)
  have m: "(''Food'', 2001 / 100 :: rat) \<in> set [(''Food'', 2001 / 100)]" by simp
  from chartData_rounds_held_sum [OF h m] obtain x where
    x: "(''Food'', JNum x) \<in> set (categoryTotals ?es)" "2001 / 100 = js_toFixed2 x"
    and r: "\<bar>x\<bar> < 10 ^ 21 \<longrightarrow> \<bar>2001 / 100 - x\<bar> \<le> 1 / 200"
    by blast
  from x(1) have "x = 5632314283980227 / 2 ^ 48"
    unfolding categoryTotals_two_10_005 by simp
  then have "\<bar>x\<bar> < 10 ^ 21" by simp
  with r have "\<bar>2001 / 100 - x\<bar> \<le> 1 / 200" by blast
  with x h show ?thesis by blast
qed

text \<open>
  The statement that the rounding is decimal half-away-from-zero without binary artifacts
  fails at the amount 1.005. It arrives as the binary64 number
  \<open>1131529406376837 / 2\<^sup>5\<^sup>0\<close>: a multiple of \<open>2\<^sup>-\<^sup>5\<^sup>2\<close> between 1 and 2 that is less than
  \<open>2\<^sup>-\<^sup>5\<^sup>3\<close> away from 1.005, hence the nearest one. It lies below 1.005, and the chart
  value of a category with this single amount is 1.00, where half-away-from-zero rounding
  of the decimal 1.005 gives 1.01.
\<close>

theorem chartData_1_005_rounds_down:
  "\<bar>1131529406376837 / 2 ^ 50 - 201 / 200\<bar> < (1 / 2 ^ 53 :: rat)
   \<and> chartData (categoryTotals
        [\<lparr>e_id = ''e1'', e_category = ''Food'', e_amount = 1131529406376837 / 2 ^ 50,
          e_description = [], e_date = ''2024-01-01''\<rparr>]) = Inr [(''Food'', 1)]
   \<and> js_toFixed2 (201 / 200) = 101 / 100"
  by (simp add: chartData_def object_entries_def is_array_index_Food js_toFixed2_def
      categoryTotals_def add_expense_def set_prop_def get_prop_def
      or_zero_plus_def object_prototype_keys_def floor_eq_iff)

section \<open>Properties of the expense form\<close>

lemma expenseSchema_parse_Inl_issues:
  "expenseSchema_parse c a d dt = Inl errors \<Longrightarrow>
   errors = expenseSchema_issues c a d dt \<and> errors \<noteq> []"
  by (auto simp: expenseSchema_parse_def expenseSchema_issues_def
      split: list.splits option.splits if_splits)


lemma expenseSchema_parse_Inr_fields:
  "expenseSchema_parse c a d dt = Inr v \<Longrightarrow>
   v_category v = c \<and> a = Some (v_amount v) \<and> v_description v = d \<and> v_date v = dt"
  by (auto simp: expenseSchema_parse_def split: list.splits option.splits)

lemma description_or_null_cases:
  "description_or_null d \<noteq> Some [] \<and> (d = [] \<longrightarrow> description_or_null d = None)"
  by (simp add: description_or_null_def)

lemma handleSubmit_Insert_row:
  assumes "handleSubmit parseFloat user st = Insert row"
  shows "\<exists>uid a. user = Some uid \<and> parseFloat (f_amount st) = Some a \<and>
           row = \<lparr>user_id = uid, i_category = f_category st, i_amount = a,
                  i_description = description_or_null (f_description st),
                  i_date = f_date st\<rparr>"
proof (cases "expenseSchema_parse (f_category st) (parseFloat (f_amount st))
                (f_description st) (f_date st)")
  case (Inl errors)
  with assms show ?thesis by (simp add: handleSubmit_def)
next
  case (Inr v)
  note fields = expenseSchema_parse_Inr_fields [OF Inr]
  show ?thesis
  proof (cases user)
    case None
    with Inr assms show ?thesis by (simp add: handleSubmit_def)
  next
    case (Some uid)
    with Inr assms fields show ?thesis by (auto simp: handleSubmit_def)
  qed
qed





text \<open>
  Claim C10. Whenever \<^verbatim>\<open>handleSubmit\<close> reaches the insert, the description of the row it
  sends is never the empty string, and it is \<^verbatim>\<open>null\<close> when the description entered in
  the form is empty.
\<close>

theorem handleSubmit_description_null:
  assumes "handleSubmit parseFloat user st = Insert row"
  shows "i_description row \<noteq> Some []
         \<and> (f_description st = [] \<longrightarrow> i_description row = None)"
proof -
  from handleSubmit_Insert_row [OF assms]
  have "i_description row = description_or_null (f_description st)" by auto
  then show ?thesis using description_or_null_cases [of "f_description st"] by simp
qed

theorem handleSubmit_description_null_witness:
  "handleSubmit (\<lambda>s. if s = ''12.50'' then Some (25 / 2) else None) (Some ''u1'')
     \<lparr>f_category = ''Food'', f_amount = ''12.50'', f_description = [],
       f_date = ''2024-01-02''\<rparr>
     = Insert \<lparr>user_id = ''u1'', i_category = ''Food'', i_amount = 25 / 2,
               i_description = None, i_date = ''2024-01-02''\<rparr>
   \<and> i_description \<lparr>user_id = ''u1'', i_category = ''Food'', i_amount = 25 / 2,
               i_description = None, i_date = ''2024-01-02''\<rparr> \<noteq> Some []"
proof -
  have h: "handleSubmit (\<lambda>s. if s = ''12.50'' then Some (25 / 2) else None) (Some ''u1'')
     \<lparr>f_category = ''Food'', f_amount = ''12.50'', f_description = [],
       f_date = ''2024-01-02''\<rparr>
     = Insert \<lparr>user_id = ''u1'', i_category = ''Food'', i_amount = 25 / 2,
               i_description = None, i_date = ''2024-01-02''\<rparr>"
    by (simp add: handleSubmit_def expenseSchema_parse_def expenseSchema_issues_def
        description_or_null_def)
  from handleSubmit_description_null [OF h] h show ?thesis by blast
qed

end
